theory Spec2Isabelle
  imports Main "HOL-Library.Sublist"
begin

section \<open>Errors and outcomes of a call\<close>

text \<open>
  A Go \<^verbatim>\<open>error\<close> value is a message, possibly wrapping another error
  (\<^verbatim>\<open>fmt.Errorf("...: %w", err)\<close>). A nil error is \<open>None\<close>.
\<close>

datatype error = Error string | Wrapped string error

text \<open>
  A call either returns, panics (a runtime panic or \<^verbatim>\<open>panic(err)\<close>), ends the
  process through \<^verbatim>\<open>log.Fatal\<close> (which calls \<^verbatim>\<open>os.Exit(1)\<close>, so that no
  deferred call runs), or stays blocked in a read for which the environment has
  supplied no further input.
\<close>

datatype 'a outcome = Return 'a | Panic | Fatal | Blocked

primrec andThen :: "'a outcome \<Rightarrow> ('a \<Rightarrow> 'b outcome) \<Rightarrow> 'b outcome" where
  "andThen (Return x) f = f x"
| "andThen Panic f = Panic"
| "andThen Fatal f = Fatal"
| "andThen Blocked f = Blocked"

section \<open>The text libraries used by \<^verbatim>\<open>cmd/cli/verboten_cli.go\<close>\<close>

text \<open>
  A Go string is its sequence of bytes. The Unicode tables behind \<^verbatim>\<open>strings.ToLower\<close>
  and the transformers \<^verbatim>\<open>norm.NFD\<close>, \<^verbatim>\<open>runes.Remove(runes.In(unicode.Mn))\<close> and
  \<^verbatim>\<open>norm.NFC\<close> of \<^verbatim>\<open>golang.org/x/text\<close> are not part of the repository: they are the
  fields of a record that every function using them takes as its first argument. A
  transformer may report an error, as the \<^verbatim>\<open>transform.Transformer\<close> interface allows.
\<close>

record textlib =
  ToLower :: "string \<Rightarrow> string"
  NFD :: "string \<Rightarrow> error + string"
  RemoveMn :: "string \<Rightarrow> error + string"
  NFC :: "string \<Rightarrow> error + string"

text \<open>
  \<^verbatim>\<open>transform.String(transform.Chain(t1, ..., tn), s)\<close>: the transformers are applied in
  order, and the first error is the result.
\<close>

fun Chain :: "(string \<Rightarrow> error + string) list \<Rightarrow> string \<Rightarrow> error + string" where
  "Chain [] s = Inr s"
| "Chain (t # ts) s = (case t s of Inl e \<Rightarrow> Inl e | Inr s' \<Rightarrow> Chain ts s')"

text \<open>
  \<^verbatim>\<open>strings.Index(s, substr)\<close> is the index of the first instance of \<^verbatim>\<open>substr\<close> in
  \<^verbatim>\<open>s\<close>, or \<open>-1\<close>; \<^verbatim>\<open>strings.Contains(s, substr)\<close> is \<^verbatim>\<open>Index(s, substr) >= 0\<close>.
\<close>

fun Index :: "string \<Rightarrow> string \<Rightarrow> int" where
  "Index [] substr = (if substr = [] then 0 else -1)"
| "Index (c # s) substr =
     (if prefix substr (c # s) then 0
      else (let i = Index s substr in if i < 0 then -1 else i + 1))"

definition Contains :: "string \<Rightarrow> string \<Rightarrow> bool" where
  "Contains s substr = (Index s substr \<ge> 0)"

section \<open>The turn-based game: \<^verbatim>\<open>cmd/cli/verboten_cli.go\<close>\<close>

record forbiddenWord =
  Word :: string
  Forbidden :: "string list"
  languageName :: string

text \<open>
  \<^verbatim>\<open>normalize\<close> lowercases its argument, then runs the chain NFD, removal of nonspacing
  marks, NFC over it; an error of the chain is a panic. (The name \<open>normalize\<close> is a
  constant of HOL, hence the suffix.)
\<close>

definition normalize_str :: "textlib \<Rightarrow> string \<Rightarrow> string outcome" where
  "normalize_str L s =
     (case Chain [NFD L, RemoveMn L, NFC L] (ToLower L s) of
        Inl err \<Rightarrow> Panic
      | Inr normalized \<Rightarrow> Return normalized)"

definition isWinning :: "textlib \<Rightarrow> forbiddenWord \<Rightarrow> string \<Rightarrow> (bool \<times> error option) outcome" where
  "isWinning L fw guess =
     andThen (normalize_str L guess) (\<lambda>lowGuess.
     andThen (normalize_str L (Word fw)) (\<lambda>lowGoal.
     Return (Contains lowGuess lowGoal, None)))"

subsection \<open>Responses of the AI backend\<close>

text \<open>
  A \<^verbatim>\<open>*genai.GenerateContentResponse\<close> as far as the program reads it: a slice of
  candidate pointers, each with a content pointer, which has a slice of part pointers.
  A nil pointer is \<open>None\<close>.
\<close>

record part =
  Text :: string

record content =
  Parts :: "part option list"

record candidate =
  Content :: "content option"

record response =
  Candidates :: "candidate option list"

text \<open>
  The expression \<^verbatim>\<open>resp.Candidates[0].Content.Parts[0].Text\<close>: an index out of range
  and a nil pointer dereference are runtime panics.
\<close>

definition firstPartText :: "response \<Rightarrow> string outcome" where
  "firstPartText resp =
     (case Candidates resp of
        [] \<Rightarrow> Panic
      | None # _ \<Rightarrow> Panic
      | Some c # _ \<Rightarrow>
          (case Content c of
             None \<Rightarrow> Panic
           | Some ct \<Rightarrow>
               (case Parts ct of
                  [] \<Rightarrow> Panic
                | None # _ \<Rightarrow> Panic
                | Some p # _ \<Rightarrow> Return (Text p))))"

definition checkNotEmpty :: "response \<Rightarrow> unit outcome" where
  "checkNotEmpty res =
     (case Candidates res of
        [] \<Rightarrow> Fatal
      | None # _ \<Rightarrow> Panic
      | Some c # _ \<Rightarrow>
          (case Content c of
             None \<Rightarrow> Panic
           | Some ct \<Rightarrow> if Parts ct = [] then Fatal else Return ()))"

definition textOf :: "response \<Rightarrow> string outcome" where
  "textOf res = andThen (checkNotEmpty res) (\<lambda>_. firstPartText res)"

subsection \<open>Requests to the AI backend\<close>

text \<open>
  The three \<^verbatim>\<open>client.Models.GenerateContent\<close> requests of the program. Each prompt is a
  fixed text around the arguments kept here: the structured judgment lists the secret
  word and its forbidden variants in its system instruction and sends what the player
  said; the two confirmation questions are built from the two words (and the language
  name).
\<close>

datatype call =
    StructuredJudgment string "string list" string
  | SameRootQuestion string string
  | TranslationQuestion string string string

text \<open>The struct that the structured answer is parsed into.\<close>

record judgeResult =
  Lost :: bool
  ForbiddenWord :: string
  Fragment :: string

text \<open>What the judge pipeline prints on standard output.\<close>

datatype judge_says =
    LookedSuspiciouslySimilar string string
  | HaveTheSameRoot string string
  | IsATranslation string string

datatype event = Issued call | Printed judge_says

subsection \<open>Two goroutines of an \<^verbatim>\<open>errgroup.Group\<close> sharing the variable \<^verbatim>\<open>err\<close>\<close>

text \<open>
  Both closures passed to \<^verbatim>\<open>g.Go\<close> have the shape
  \<^verbatim>\<open>x, err = f(...); return err\<close>, on one variable \<^verbatim>\<open>err\<close> that they share. Each goroutine
  thus takes two steps on the shared variable: it assigns its own error to \<^verbatim>\<open>err\<close>, and
  later returns the value \<^verbatim>\<open>err\<close> holds at that moment. \<^verbatim>\<open>g.Wait()\<close> yields the first
  non-nil error returned, in the order the goroutines return. A schedule is the order of
  these four steps.
\<close>

datatype task = First | Second

datatype step = Assign task | Ret task

fun Wait :: "step list \<Rightarrow> (task \<Rightarrow> error option) \<Rightarrow> error option \<Rightarrow> error option \<Rightarrow> error option" where
  "Wait [] res err firstErr = firstErr"
| "Wait (Assign t # sch) res err firstErr = Wait sch res (res t) firstErr"
| "Wait (Ret t # sch) res err firstErr =
     Wait sch res err (case firstErr of None \<Rightarrow> err | Some e \<Rightarrow> Some e)"

text \<open>The schedules that can occur: each goroutine assigns before it returns.\<close>

definition interleavings :: "step list list" where
  "interleavings =
     [[Assign First, Ret First, Assign Second, Ret Second],
      [Assign First, Assign Second, Ret First, Ret Second],
      [Assign First, Assign Second, Ret Second, Ret First],
      [Assign Second, Assign First, Ret First, Ret Second],
      [Assign Second, Assign First, Ret Second, Ret First],
      [Assign Second, Ret Second, Assign First, Ret First]]"

definition errorsOf :: "error option \<Rightarrow> error option \<Rightarrow> task \<Rightarrow> error option" where
  "errorsOf e1 e2 t = (case t of First \<Rightarrow> e1 | Second \<Rightarrow> e2)"

subsection \<open>The judge pipeline\<close>

text \<open>
  What one turn's environment supplies: the backend's answer to each request, the JSON
  parser applied to the structured answer, the reply to the guesser's chat message, the
  line the player typed (after \<^verbatim>\<open>strings.TrimSpace\<close>), and the schedules of the two
  goroutine pairs.
\<close>

record turn_env =
  generateContent :: "call \<Rightarrow> error + response"
  unmarshal :: "string \<Rightarrow> error + judgeResult"
  checksSchedule :: "step list"
  description :: string
  sendMessage :: "string \<Rightarrow> error + response"
  turnSchedule :: "step list"

definition haveSameRoot :: "textlib \<Rightarrow> 'a turn_env_scheme \<Rightarrow> string \<Rightarrow> string \<Rightarrow> (bool \<times> error option) outcome" where
  "haveSameRoot L E word1 word2 =
     (case generateContent E (SameRootQuestion word1 word2) of
        Inl err \<Rightarrow> Return (False, Some err)
      | Inr resp \<Rightarrow>
          andThen (firstPartText resp) (\<lambda>text.
          let answer = ToLower L text in Return (answer = ''yes'', None)))"

definition isTranslation :: "textlib \<Rightarrow> 'a turn_env_scheme \<Rightarrow> string \<Rightarrow> string \<Rightarrow> string \<Rightarrow> (bool \<times> error option) outcome" where
  "isTranslation L E word1 word2 word2Lang =
     (case generateContent E (TranslationQuestion word1 word2Lang word2) of
        Inl err \<Rightarrow> Return (False, Some err)
      | Inr resp \<Rightarrow>
          andThen (firstPartText resp) (\<lambda>answer.
          Return (ToLower L answer = ''yes'', None)))"

text \<open>
  \<^verbatim>\<open>saidForbidden\<close> returns \<^verbatim>\<open>(lost, forbiddenSaid, forbiddenMatched, err)\<close>; the model
  returns with it the requests issued and the lines printed. It is written in three
  parts, in the order of the source: \<open>saidForbidden\<close> is the function up to the test of
  \<^verbatim>\<open>result.Lost\<close>, \<open>doubleCheck\<close> the two goroutines that confirm a suspicion, and
  \<open>confirmed\<close> the statements from \<^verbatim>\<open>err = g.Wait()\<close> to the end.
\<close>

type_synonym verdict = "bool \<times> string \<times> string \<times> error option"

definition confirmed ::
  "step list \<Rightarrow> judgeResult \<Rightarrow> event list \<Rightarrow> bool \<Rightarrow> error option \<Rightarrow> bool \<Rightarrow> error option \<Rightarrow>
     (verdict \<times> event list) outcome" where
  "confirmed sch result issued isSameRoot err1 isTranslated err2 =
     (case Wait sch (errorsOf err1 err2) None None of
        Some err \<Rightarrow> Return ((False, [], [], Some err), issued)
      | None \<Rightarrow>
          if \<not> isSameRoot \<and> \<not> isTranslated then
            Return ((False, [], [], None),
              issued @
              [Printed (LookedSuspiciouslySimilar (Fragment result) (ForbiddenWord result))])
          else
            Return ((Lost result, Fragment result, ForbiddenWord result, None),
              issued @
              (if isSameRoot
               then [Printed (HaveTheSameRoot (Fragment result) (ForbiddenWord result))]
               else []) @
              (if isTranslated
               then [Printed (IsATranslation (Fragment result) (ForbiddenWord result))]
               else [])))"

text \<open>
  The two confirmation requests run in goroutines: they are listed in the order of their
  \<^verbatim>\<open>g.Go\<close> statements, and a panic in either goroutine ends the process.
\<close>

definition doubleCheck ::
  "textlib \<Rightarrow> 'a turn_env_scheme \<Rightarrow> forbiddenWord \<Rightarrow> event list \<Rightarrow> judgeResult \<Rightarrow>
     (verdict \<times> event list) outcome" where
  "doubleCheck L E fw issued result =
     andThen (haveSameRoot L E (Fragment result) (ForbiddenWord result))
       (\<lambda>(isSameRoot, err1).
     andThen (isTranslation L E (Fragment result) (ForbiddenWord result) (languageName fw))
       (\<lambda>(isTranslated, err2).
     confirmed (checksSchedule E) result
       (issued @
        [Issued (SameRootQuestion (Fragment result) (ForbiddenWord result)),
         Issued (TranslationQuestion (Fragment result) (languageName fw) (ForbiddenWord result))])
       isSameRoot err1 isTranslated err2))"

definition saidForbidden ::
  "textlib \<Rightarrow> 'a turn_env_scheme \<Rightarrow> forbiddenWord \<Rightarrow> string \<Rightarrow> (verdict \<times> event list) outcome" where
  "saidForbidden L E fw said =
     (let issued = [Issued (StructuredJudgment (Word fw) (Forbidden fw) said)] in
      case generateContent E (StructuredJudgment (Word fw) (Forbidden fw) said) of
        Inl err \<Rightarrow> Return ((False, [], [], Some err), issued)
      | Inr resp \<Rightarrow>
          andThen (firstPartText resp) (\<lambda>structureAnswer.
          case unmarshal E structureAnswer of
            Inl err \<Rightarrow>
              Return ((False, [], [], Some (Wrapped ''failed to parse AI response'' err)), issued)
          | Inr result \<Rightarrow>
              if \<not> Lost result then Return ((False, [], [], None), issued)
              else doubleCheck L E fw issued result))"

subsection \<open>One turn and the game loop of \<^verbatim>\<open>main\<close>\<close>

text \<open>How a turn ends, with what it prints.\<close>

datatype turn_end =
    UsedForbiddenWord string
  | UsedForbiddenInflection string string
  | AiGuessedTheWord string
  | NextTurn string

text \<open>
  The body of the loop of \<^verbatim>\<open>main\<close>. What \<^verbatim>\<open>main\<close> does before the loop (the client, the
  word file, the choice of a language, the word drawn at random, the chat) is not
  modelled: the loop takes the drawn word as an argument. The judge pipeline and the
  guesser's chat message run in two goroutines of one group; \<^verbatim>\<open>g.Wait()\<close> joins them, and
  a non-nil error is fatal. A failed \<^verbatim>\<open>chat.SendMessage\<close> leaves \<^verbatim>\<open>result\<close> nil. A lost turn
  returns before the guess is looked at.
\<close>

definition turn :: "textlib \<Rightarrow> 'a turn_env_scheme \<Rightarrow> forbiddenWord \<Rightarrow> turn_end outcome" where
  "turn L E gameWord =
     andThen (saidForbidden L E gameWord (description E))
       (\<lambda>((lost, forbiddenSaid, forbiddenMatched, err1), printed).
     let (result, err2) =
       (case sendMessage E (description E) of
          Inl err \<Rightarrow> (None, Some err)
        | Inr r \<Rightarrow> (Some r, None))
     in
     case Wait (turnSchedule E) (errorsOf err1 err2) None None of
       Some err \<Rightarrow> Fatal
     | None \<Rightarrow>
         if lost then
           andThen (normalize_str L forbiddenSaid) (\<lambda>said.
           andThen (normalize_str L forbiddenMatched) (\<lambda>matched.
           if said = matched then Return (UsedForbiddenWord forbiddenMatched)
           else Return (UsedForbiddenInflection forbiddenSaid forbiddenMatched)))
         else
           (case result of
              None \<Rightarrow> Panic
            | Some res \<Rightarrow>
                andThen (textOf res) (\<lambda>aiResponse.
                andThen (isWinning L gameWord aiResponse) (\<lambda>(winning, err).
                case err of
                  Some e \<Rightarrow> Fatal
                | None \<Rightarrow>
                    if winning then Return (AiGuessedTheWord aiResponse)
                    else Return (NextTurn aiResponse)))))"

text \<open>How the game ends.\<close>

datatype game_end = YouLose turn_end | YouWin | WordWas string

text \<open>
  The loop \<^verbatim>\<open>for guesses > 0\<close>, over the environments of the successive turns; with no
  further input the loop is blocked reading the next description.
\<close>

fun play :: "textlib \<Rightarrow> forbiddenWord \<Rightarrow> turn_env list \<Rightarrow> nat \<Rightarrow> game_end outcome" where
  "play L gameWord envs 0 = Return (WordWas (Word gameWord))"
| "play L gameWord [] (Suc guesses) = Blocked"
| "play L gameWord (E # envs) (Suc guesses) =
     andThen (turn L E gameWord) (\<lambda>ending.
     case ending of
       NextTurn _ \<Rightarrow> play L gameWord envs guesses
     | AiGuessedTheWord _ \<Rightarrow> Return YouWin
     | _ \<Rightarrow> Return (YouLose ending))"

definition game :: "textlib \<Rightarrow> forbiddenWord \<Rightarrow> turn_env list \<Rightarrow> game_end outcome" where
  "game L gameWord envs = play L gameWord envs 3"

section \<open>The live game: the \<^verbatim>\<open>verboten\<close> package\<close>

text \<open>
  A \<^verbatim>\<open>*genai.LiveServerMessage\<close> as far as the server reads it: the judge loop looks at
  \<^verbatim>\<open>message.ServerContent.OutputTranscription.Text\<close>, through two pointers that may be
  nil. Every other field (audio chunks, input transcription, turn completion) travels in
  the records' extensions; the guessing loop never looks inside a message.
\<close>

record transcription =
  Text :: string

record liveServerContent =
  OutputTranscription :: "transcription option"

record 'c liveServerMessage =
  ServerContent :: "'c liveServerContent_scheme option"

text \<open>
  What the handler and its goroutines do, as far as other parties can observe it. A
  \<^verbatim>\<open>genai.LiveRealtimeInput\<close> is an opaque value of type \<open>'f\<close>; the text of a log line is
  its fixed part.
\<close>

datatype guesser_prompt = guesserPrompt | guesserPrompt_fr | guesserPrompt_ar

datatype instruction = Guess guesser_prompt | JudgeProscribed "string list"

datatype 'f action =
    Log string "error option"
  | LogFatal string error
  | LogJudgeSays string string
  | NotFound
  | Upgraded
  | Connected string instruction
  | GoGuessingLoop
  | GoJudgeLoop
  | SendGuesser 'f
  | SendJudge 'f
  | WriteClient string
  | CloseClient
  | CloseGuesser
  | CloseJudge

text \<open>
  The human speech loop (the \<^verbatim>\<open>for\<close> of the handler itself), over the results of the
  successive \<^verbatim>\<open>c.ReadMessage()\<close> calls. \<^verbatim>\<open>json.Unmarshal\<close> into a
  \<^verbatim>\<open>genai.LiveRealtimeInput\<close> is a parameter. The error that
  \<^verbatim>\<open>SendRealtimeInput\<close> returns is discarded by the source, so no branch depends on it.
\<close>

fun humanSpeechLoop ::
  "(string \<Rightarrow> error + 'f) \<Rightarrow> (error + string) list \<Rightarrow> 'f action list \<times> unit outcome" where
  "humanSpeechLoop unmarshalInput [] = ([], Blocked)"
| "humanSpeechLoop unmarshalInput (Inl err # reads) =
     ([Log ''read from client error: '' (Some err)], Return ())"
| "humanSpeechLoop unmarshalInput (Inr message # reads) =
     (case unmarshalInput message of
        Inl err \<Rightarrow> ([LogFatal ''unmarshal message error '' err], Fatal)
      | Inr realtimeInput \<Rightarrow>
          (let (acts, out) = humanSpeechLoop unmarshalInput reads
           in (SendGuesser realtimeInput # SendJudge realtimeInput # acts, out)))"

text \<open>
  The guessing loop (first goroutine), over the results of the successive
  \<^verbatim>\<open>session.Receive()\<close> calls, each paired with the result of the \<^verbatim>\<open>c.WriteMessage\<close> that
  follows it when it is reached. \<^verbatim>\<open>json.Marshal\<close> of a server message is a parameter.
\<close>

fun guessingLoop ::
  "('m \<Rightarrow> error + string) \<Rightarrow> ((error + 'm) \<times> error option) list \<Rightarrow>
     'f action list \<times> unit outcome" where
  "guessingLoop marshal [] = ([], Blocked)"
| "guessingLoop marshal ((Inl err, written) # receives) =
     ([Log ''guesser model deconnected: '' (Some err)], Return ())"
| "guessingLoop marshal ((Inr message, written) # receives) =
     (case marshal message of
        Inl err \<Rightarrow> ([LogFatal ''marshal guesser model response error: '' err], Fatal)
      | Inr messageBytes \<Rightarrow>
          (case written of
             Some err \<Rightarrow>
               ([WriteClient messageBytes, Log ''write message error: '' (Some err)], Return ())
           | None \<Rightarrow>
               (let (acts, out) = guessingLoop marshal receives
                in (WriteClient messageBytes # acts, out))))"

text \<open>
  The judge loop (second goroutine), over the results of the successive
  \<^verbatim>\<open>sessionJudge.Receive()\<close> calls. It logs the output transcription, when there is one;
  writing to the client is a \<^verbatim>\<open>TODO\<close> comment in the source.
\<close>

fun judgeLoop ::
  "string \<Rightarrow> (error + ('c, 'b) liveServerMessage_scheme) list \<Rightarrow>
     'f action list \<times> unit outcome" where
  "judgeLoop gameID [] = ([], Blocked)"
| "judgeLoop gameID (Inl err # receives) = ([Log ''judge deconnected: '' (Some err)], Return ())"
| "judgeLoop gameID (Inr message # receives) =
     (let said =
        (case ServerContent message of
           None \<Rightarrow> []
         | Some sc \<Rightarrow>
             (case OutputTranscription sc of
                None \<Rightarrow> []
              | Some ot \<Rightarrow> [LogJudgeSays gameID (transcription.Text ot)]));
          (acts, out) = judgeLoop gameID receives
      in (said @ acts, out))"

text \<open>
  What one request to \<^verbatim>\<open>/live/\<close> meets: the language in the path, the \<^verbatim>\<open>forbidden\<close> query
  values, the backend of the client, the result of the upgrade and of the two
  \<^verbatim>\<open>Live.Connect\<close> calls, the game identifier drawn by \<^verbatim>\<open>randomString(4)\<close>, and what the
  client connection then delivers.
\<close>

record 'f live_env =
  lang :: string
  forbiddenWords :: "string list"
  vertexAI :: bool
  upgrade :: "error option"
  connectGuesser :: "error option"
  connectJudge :: "error option"
  gameID :: string
  unmarshalInput :: "string \<Rightarrow> error + 'f"
  clientReads :: "(error + string) list"

definition promptFor :: "string \<Rightarrow> guesser_prompt option" where
  "promptFor l =
     (if l = ''en'' then Some guesserPrompt
      else if l = ''fr'' then Some guesserPrompt_fr
      else if l = ''ar'' then Some guesserPrompt_ar
      else None)"

definition modelFor :: "bool \<Rightarrow> string" where
  "modelFor vertex =
     (if vertex then ''gemini-live-2.5-flash-preview-native-audio-09-2025''
      else ''gemini-2.5-flash-native-audio-preview-09-2025'')"

text \<open>
  The handler \<^verbatim>\<open>liveGame\<close>, as its own goroutine runs it. The guessing loop is started
  before the human speech loop; the judge loop is started by the statement after that
  loop, so once the loop has been left through \<^verbatim>\<open>break\<close>; the handler then returns and
  its deferred calls close the judge session, the guesser session and the client
  connection, in this order.
\<close>

definition liveGame :: "('f, 'a) live_env_scheme \<Rightarrow> 'f action list \<times> unit outcome" where
  "liveGame E =
     (case promptFor (lang E) of
        None \<Rightarrow> ([Log ''unsupported language: '' None, NotFound], Return ())
      | Some prompt \<Rightarrow>
          (case upgrade E of
             Some err \<Rightarrow> ([LogFatal ''upgrade error: '' err], Fatal)
           | None \<Rightarrow>
               (let started = [Upgraded, Log ''Starting game '' None] in
                case connectGuesser E of
                  Some err \<Rightarrow> (started @ [LogFatal ''connect to model error: '' err], Fatal)
                | None \<Rightarrow>
                    (let guesser = started @ [Connected (modelFor (vertexAI E)) (Guess prompt)] in
                     case connectJudge E of
                       Some err \<Rightarrow> (guesser @ [LogFatal ''connect to model error: '' err], Fatal)
                     | None \<Rightarrow>
                         (let sessions =
                            guesser @
                            [Connected (modelFor (vertexAI E)) (JudgeProscribed (forbiddenWords E)),
                             GoGuessingLoop];
                              (acts, out) = humanSpeechLoop (unmarshalInput E) (clientReads E)
                          in
                          case out of
                            Return _ \<Rightarrow>
                              (sessions @ acts @ [GoJudgeLoop, CloseJudge, CloseGuesser, CloseClient],
                               Return ())
                          | _ \<Rightarrow> (sessions @ acts, out))))))"

text \<open>Projections of a trace.\<close>

fun sends :: "'f action list \<Rightarrow> 'f action list" where
  "sends [] = []"
| "sends (SendGuesser f # acts) = SendGuesser f # sends acts"
| "sends (SendJudge f # acts) = SendJudge f # sends acts"
| "sends (a # acts) = sends acts"

fun toGuesser :: "'f action list \<Rightarrow> 'f list" where
  "toGuesser [] = []"
| "toGuesser (SendGuesser f # acts) = f # toGuesser acts"
| "toGuesser (a # acts) = toGuesser acts"

fun toJudge :: "'f action list \<Rightarrow> 'f list" where
  "toJudge [] = []"
| "toJudge (SendJudge f # acts) = f # toJudge acts"
| "toJudge (a # acts) = toJudge acts"

fun toClient :: "'f action list \<Rightarrow> string list" where
  "toClient [] = []"
| "toClient (WriteClient bytes # acts) = bytes # toClient acts"
| "toClient (a # acts) = toClient acts"

text \<open>
  What the specification asks of the fan-out: the frames the loop forwards are those read
  and deserialized before the first failed read or malformed message, and each goes to
  the guesser session and then to the judge session.
\<close>

definition deserialized :: "(string \<Rightarrow> error + 'f) \<Rightarrow> error + string \<Rightarrow> 'f option" where
  "deserialized um r =
     (case r of
        Inl err \<Rightarrow> None
      | Inr message \<Rightarrow> (case um message of Inl err \<Rightarrow> None | Inr f \<Rightarrow> Some f))"

definition accepted :: "(string \<Rightarrow> error + 'f) \<Rightarrow> (error + string) list \<Rightarrow> 'f list" where
  "accepted um reads =
     List.map_filter (deserialized um) (takeWhile (\<lambda>r. deserialized um r \<noteq> None) reads)"

definition fanOut :: "'f list \<Rightarrow> 'f action list" where
  "fanOut frames = concat (map (\<lambda>f. [SendGuesser f, SendJudge f]) frames)"

text \<open>
  A connection is established when the language is supported and the upgrade and both
  \<^verbatim>\<open>Live.Connect\<close> calls succeed; the handler has then done the following.
\<close>

definition established :: "('f, 'a) live_env_scheme \<Rightarrow> bool" where
  "established E \<longleftrightarrow>
     promptFor (lang E) \<noteq> None \<and> upgrade E = None \<and> connectGuesser E = None \<and>
     connectJudge E = None"

definition handshake :: "('f, 'a) live_env_scheme \<Rightarrow> 'f action list" where
  "handshake E =
     (case promptFor (lang E) of
        None \<Rightarrow> []
      | Some prompt \<Rightarrow>
          [Upgraded, Log ''Starting game '' None,
           Connected (modelFor (vertexAI E)) (Guess prompt),
           Connected (modelFor (vertexAI E)) (JudgeProscribed (forbiddenWords E)),
           GoGuessingLoop])"

text \<open>The actions of the judge loop are log lines.\<close>

fun isLog :: "'f action \<Rightarrow> bool" where
  "isLog (Log text err) = True"
| "isLog (LogJudgeSays g text) = True"
| "isLog a = False"

section \<open>A small text library\<close>

text \<open>
  An instance of the text library over a small repertoire, used to run the model on
  concrete inputs: the ASCII characters; U+00E9 and U+00C9 (e with acute, small and
  capital); U+0301 (combining acute accent, a nonspacing mark of combining class 230);
  U+034F (combining grapheme joiner, a nonspacing mark of class 0); U+1D165 and U+1D16D
  (musical symbols combining stem and combining augmentation dot, spacing marks of
  classes 216 and 226); and the replacement character U+FFFD, which stands for every byte
  that does not start one of these in UTF-8.
\<close>

datatype glyph =
    Ascii char
  | SmallEAcute
  | CapitalEAcute
  | CombiningAcute
  | Joiner
  | Stem
  | AugmentationDot
  | Replacement

text \<open>The glyph that starts with the byte \<open>c\<close> before \<open>s\<close>, and how many bytes of \<open>s\<close> it takes.\<close>

definition lead :: "char \<Rightarrow> string \<Rightarrow> glyph \<times> nat" where
  "lead c s =
     (if (of_char c :: nat) < 128 then (Ascii c, 0)
      else if c = CHR 0xC3 \<and> prefix [CHR 0xA9] s then (SmallEAcute, 1)
      else if c = CHR 0xC3 \<and> prefix [CHR 0x89] s then (CapitalEAcute, 1)
      else if c = CHR 0xCC \<and> prefix [CHR 0x81] s then (CombiningAcute, 1)
      else if c = CHR 0xCD \<and> prefix [CHR 0x8F] s then (Joiner, 1)
      else if c = CHR 0xEF \<and> prefix [CHR 0xBF, CHR 0xBD] s then (Replacement, 2)
      else if c = CHR 0xF0 \<and> prefix [CHR 0x9D, CHR 0x85, CHR 0xA5] s then (Stem, 3)
      else if c = CHR 0xF0 \<and> prefix [CHR 0x9D, CHR 0x85, CHR 0xAD] s then (AugmentationDot, 3)
      else (Replacement, 0))"

fun decode :: "string \<Rightarrow> glyph list" where
  "decode [] = []"
| "decode (c # s) = fst (lead c s) # decode (drop (snd (lead c s)) s)"

fun utf8 :: "glyph \<Rightarrow> string" where
  "utf8 (Ascii c) = [c]"
| "utf8 SmallEAcute = [CHR 0xC3, CHR 0xA9]"
| "utf8 CapitalEAcute = [CHR 0xC3, CHR 0x89]"
| "utf8 CombiningAcute = [CHR 0xCC, CHR 0x81]"
| "utf8 Joiner = [CHR 0xCD, CHR 0x8F]"
| "utf8 Stem = [CHR 0xF0, CHR 0x9D, CHR 0x85, CHR 0xA5]"
| "utf8 AugmentationDot = [CHR 0xF0, CHR 0x9D, CHR 0x85, CHR 0xAD]"
| "utf8 Replacement = [CHR 0xEF, CHR 0xBF, CHR 0xBD]"

definition encode :: "glyph list \<Rightarrow> string" where
  "encode gs = concat (map utf8 gs)"

definition asciiLower :: "char \<Rightarrow> char" where
  "asciiLower c =
     (let n = (of_char c :: nat) in if 65 \<le> n \<and> n \<le> 90 then char_of (n + 32) else c)"

fun lowerGlyph :: "glyph \<Rightarrow> glyph" where
  "lowerGlyph (Ascii c) = Ascii (asciiLower c)"
| "lowerGlyph CapitalEAcute = SmallEAcute"
| "lowerGlyph g = g"

fun decompose :: "glyph \<Rightarrow> glyph list" where
  "decompose SmallEAcute = [Ascii CHR ''e'', CombiningAcute]"
| "decompose CapitalEAcute = [Ascii CHR ''E'', CombiningAcute]"
| "decompose g = [g]"

text \<open>Canonical combining classes, and the general category Mn.\<close>

fun combiningClass :: "glyph \<Rightarrow> nat" where
  "combiningClass CombiningAcute = 230"
| "combiningClass Stem = 216"
| "combiningClass AugmentationDot = 226"
| "combiningClass g = 0"

fun nonspacing :: "glyph \<Rightarrow> bool" where
  "nonspacing CombiningAcute = True"
| "nonspacing Joiner = True"
| "nonspacing g = False"

text \<open>
  Canonical ordering: each mark moves in front of the marks of a higher class that stand
  right before it; a glyph of class 0 stays where it is.
\<close>

fun place :: "glyph \<Rightarrow> glyph list \<Rightarrow> glyph list" where
  "place g [] = [g]"
| "place g (h # gs) =
     (if combiningClass g > combiningClass h \<and> combiningClass h > 0 then h # place g gs
      else g # h # gs)"

fun reorder :: "glyph list \<Rightarrow> glyph list" where
  "reorder [] = []"
| "reorder (g # gs) = place g (reorder gs)"

text \<open>
  Canonical composition: e and E take the first acute accent that follows with only marks
  of a lower class in between.
\<close>

fun hasAcute :: "glyph list \<Rightarrow> bool" where
  "hasAcute [] = False"
| "hasAcute (g # gs) = (g = CombiningAcute \<or> (combiningClass g > 0 \<and> hasAcute gs))"

fun dropAcute :: "glyph list \<Rightarrow> glyph list" where
  "dropAcute [] = []"
| "dropAcute (g # gs) =
     (if g = CombiningAcute then gs
      else if combiningClass g > 0 then g # dropAcute gs
      else g # gs)"

fun accented :: "glyph \<Rightarrow> glyph option" where
  "accented (Ascii c) =
     (if c = CHR ''e'' then Some SmallEAcute
      else if c = CHR ''E'' then Some CapitalEAcute
      else None)"
| "accented g = None"

function compose :: "glyph list \<Rightarrow> glyph list" where
  "compose [] = []"
| "compose (g # gs) =
     (case accented g of
        None \<Rightarrow> g # compose gs
      | Some a \<Rightarrow> if hasAcute gs then a # compose (dropAcute gs) else g # compose gs)"
  by pat_completeness auto
termination
proof (relation "measure length")
  show "wf (measure length)" by simp
next
  fix g :: glyph and gs
  show "(gs, g # gs) \<in> measure length" by simp
next
  fix g :: glyph and gs x2
  have "length (dropAcute hs) \<le> length hs" for hs
    by (induction hs) auto
  then show "(dropAcute gs, g # gs) \<in> measure length"
    by (simp add: less_Suc_eq_le)
next
  fix g :: glyph and gs x2
  show "(gs, g # gs) \<in> measure length" by simp
qed

definition sampleToLower :: "string \<Rightarrow> string" where
  "sampleToLower s = encode (map lowerGlyph (decode s))"

definition sampleNFD :: "string \<Rightarrow> string" where
  "sampleNFD s = encode (reorder (concat (map decompose (decode s))))"

definition sampleRemoveMn :: "string \<Rightarrow> string" where
  "sampleRemoveMn s = encode (filter (\<lambda>g. \<not> nonspacing g) (decode s))"

definition sampleNFC :: "string \<Rightarrow> string" where
  "sampleNFC s = encode (compose (reorder (concat (map decompose (decode s)))))"

definition sampleLib :: textlib where
  "sampleLib =
     \<lparr>ToLower = sampleToLower,
      NFD = (\<lambda>s. Inr (sampleNFD s)),
      RemoveMn = (\<lambda>s. Inr (sampleRemoveMn s)),
      NFC = (\<lambda>s. Inr (sampleNFC s))\<rparr>"

text \<open>The UTF-8 bytes of "caf\'e", with U+00E9, and of its canonical decomposition.\<close>

definition cafe_acute :: string where
  "cafe_acute = ''caf'' @ [CHR 0xC3, CHR 0xA9]"

definition cafe_combining :: string where
  "cafe_combining = ''cafe'' @ [CHR 0xCC, CHR 0x81]"







text \<open>A word to guess.\<close>

definition cafe_word :: forbiddenWord where
  "cafe_word = \<lparr>Word = ''CAFE'', Forbidden = [''Coffee'', ''Bar''], languageName = ''French''\<rparr>"

section \<open>Concrete turns\<close>


text \<open>A response with one candidate, of one part.\<close>

definition textResponse :: "string \<Rightarrow> response" where
  "textResponse t =
     \<lparr>Candidates = [Some \<lparr>Content = Some \<lparr>Parts = [Some \<lparr>part.Text = t\<rparr>]\<rparr>\<rparr>]\<rparr>"

definition pousser :: forbiddenWord where
  "pousser =
     \<lparr>Word = ''Pousser'', Forbidden = [''Appuyer'', ''Bousculer''], languageName = ''French''\<rparr>"

text \<open>Two structured answers, and a parser that knows them.\<close>

definition lostAnswer :: string where
  \<open>lostAnswer = ''{"lost": true, "forbiddenWord": "Pousser", "fragment": "poussent"}''\<close>

definition notLostAnswer :: string where
  \<open>notLostAnswer = ''{"lost": false}''\<close>

definition sampleUnmarshal :: "string \<Rightarrow> error + judgeResult" where
  "sampleUnmarshal s =
     (if s = lostAnswer
      then Inr \<lparr>Lost = True, ForbiddenWord = ''Pousser'', Fragment = ''poussent''\<rparr>
      else if s = notLostAnswer
      then Inr \<lparr>Lost = False, ForbiddenWord = [], Fragment = []\<rparr>
      else Inl (Error ''invalid character''))"

text \<open>
  A turn in which the judge suspects a forbidden word, the same-root check answers yes and
  the translation request fails; the two checks run one after the other.
\<close>

definition translationFails :: turn_env where
  "translationFails =
     \<lparr>generateContent =
        (\<lambda>c. case c of
           StructuredJudgment w fs said \<Rightarrow> Inr (textResponse lostAnswer)
         | SameRootQuestion w1 w2 \<Rightarrow> Inr (textResponse ''Yes'')
         | TranslationQuestion w1 l w2 \<Rightarrow> Inl (Error ''deadline exceeded'')),
      unmarshal = sampleUnmarshal,
      checksSchedule = [Assign First, Ret First, Assign Second, Ret Second],
      description = ''Les fleurs poussent'',
      sendMessage = (\<lambda>d. Inr (textResponse ''Pousser'')),
      turnSchedule = [Assign First, Ret First, Assign Second, Ret Second]\<rparr>"

text \<open>
  A turn in which every request is answered, by the given texts; the two checks overlap.
\<close>

definition bothAnswer :: "string \<Rightarrow> string \<Rightarrow> string \<Rightarrow> string \<Rightarrow> turn_env" where
  "bothAnswer structured sameRoot translation guessed =
     \<lparr>generateContent =
        (\<lambda>c. case c of
           StructuredJudgment w fs said \<Rightarrow> Inr (textResponse structured)
         | SameRootQuestion w1 w2 \<Rightarrow> Inr (textResponse sameRoot)
         | TranslationQuestion w1 l w2 \<Rightarrow> Inr (textResponse translation)),
      unmarshal = sampleUnmarshal,
      checksSchedule = [Assign First, Assign Second, Ret Second, Ret First],
      description = ''Les fleurs poussent'',
      sendMessage = (\<lambda>d. Inr (textResponse guessed)),
      turnSchedule = [Assign First, Ret First, Assign Second, Ret Second]\<rparr>"

text \<open>
  A turn in which the judge confirms a loss while the guesser answers with the secret
  word, and the same turn with a failing guesser.
\<close>

definition winningGuess :: turn_env where
  "winningGuess = bothAnswer lostAnswer ''YES'' ''No'' ''Pousser''"

definition guessFails :: turn_env where
  "guessFails = winningGuess\<lparr>sendMessage := (\<lambda>d. Inl (Error ''unavailable''))\<rparr>"

section \<open>Concrete connections\<close>

text \<open>
  Frames are strings here: a message that starts with an opening brace deserializes to
  the rest of it, and any other message is malformed.
\<close>

definition sampleUnmarshalInput :: "string \<Rightarrow> error + string" where
  "sampleUnmarshalInput message =
     (case message of
        [] \<Rightarrow> Inl (Error ''unexpected end of JSON input'')
      | c # payload \<Rightarrow> if c = CHR ''{'' then Inr payload else Inl (Error ''invalid character''))"

text \<open>A game in French whose client sends the given messages.\<close>

definition frenchGame :: "(error + string) list \<Rightarrow> string live_env" where
  "frenchGame reads =
     \<lparr>lang = ''fr'', forbiddenWords = [''Pousser'', ''Appuyer''], vertexAI = False,
      upgrade = None, connectGuesser = None, connectJudge = None, gameID = ''aB3x'',
      unmarshalInput = sampleUnmarshalInput, clientReads = reads\<rparr>"

text \<open>Server messages are serialized to their transcription here, when they have one.\<close>

definition sampleMarshal :: "unit liveServerMessage \<Rightarrow> error + string" where
  "sampleMarshal message =
     (case ServerContent message of
        None \<Rightarrow> Inr ''{}''
      | Some sc \<Rightarrow>
          (case OutputTranscription sc of
             None \<Rightarrow> Inr ''{}''
           | Some ot \<Rightarrow> Inr (transcription.Text ot)))"

definition says :: "string \<Rightarrow> unit liveServerMessage" where
  "says text =
     \<lparr>ServerContent = Some \<lparr>OutputTranscription = Some \<lparr>transcription.Text = text\<rparr>\<rparr>\<rparr>"

text \<open>
  Three connections: the second \<^verbatim>\<open>Live.Connect\<close> fails; the client sends two frames and
  leaves; the client sends two frames and stays connected.
\<close>

definition judgeRefuses :: "string live_env" where
  "judgeRefuses = (frenchGame [])\<lparr>connectJudge := Some (Error ''connection refused'')\<rparr>"

definition clientLeaves :: "string live_env" where
  "clientLeaves = frenchGame [Inr ''{audio 1'', Inr ''{audio 2'', Inl (Error ''going away'')]"

definition clientStays :: "string live_env" where
  "clientStays = frenchGame [Inr ''{audio 1'', Inr ''{audio 2'']"

section \<open>Outcomes\<close>

lemma andThen_Return_iff:
  "andThen m f = Return y \<longleftrightarrow> (\<exists>x. m = Return x \<and> f x = Return y)"
  by (cases m) simp_all

lemma andThen_Return_D:
  "andThen m f = Return y \<Longrightarrow> \<exists>x. m = Return x \<and> f x = Return y"
  by (cases m) simp_all

section \<open>Goroutines that report no error\<close>

lemma Wait_keeps: "Wait sch (errorsOf None None) None firstErr = firstErr"
proof (induction sch arbitrary: firstErr)
  case Nil
  show ?case by simp
next
  case (Cons a sch)
  show ?case
  proof (cases a)
    case (Assign t)
    then show ?thesis using Cons by (cases t) (simp_all add: errorsOf_def)
  next
    case (Ret t)
    then show ?thesis using Cons by (cases firstErr) simp_all
  qed
qed

lemma Wait_no_error: "Wait sch (errorsOf None None) None None = None"
  by (rule Wait_keeps)

text \<open>
  Whatever the interleaving, the group reports no error or the error of one of the two
  goroutines, and it reports an error when both fail.
\<close>

lemma Wait_interleavings:
  "sch \<in> set interleavings \<Longrightarrow>
   Wait sch (errorsOf err1 err2) None None \<in> {None, err1, err2} \<and>
   (err1 \<noteq> None \<and> err2 \<noteq> None \<longrightarrow> Wait sch (errorsOf err1 err2) None None \<noteq> None)"
  by (auto simp: interleavings_def errorsOf_def split: option.splits)

text \<open>
  When both assignments precede both returns, the error of the goroutine that assigned
  first is lost: the group reports no error although a goroutine failed.
\<close>

lemma Wait_overwritten:
  "Wait [Assign First, Assign Second, Ret First, Ret Second] (errorsOf (Some err) None) None None =
     None"
  by (simp add: errorsOf_def)

lemma Wait_in_order:
  "Wait [Assign First, Ret First, Assign Second, Ret Second] (errorsOf err1 err2) None None =
     (case err1 of None \<Rightarrow> err2 | Some err \<Rightarrow> Some err)"
  by (simp add: errorsOf_def)

section \<open>Substring search\<close>

lemma Index_nonneg_iff: "Index s substr \<ge> 0 \<longleftrightarrow> sublist substr s"
proof (induction s)
  case Nil
  show ?case by simp
next
  case (Cons c s)
  show ?case
  proof (cases "prefix substr (c # s)")
    case True
    then show ?thesis by (simp add: sublist_Cons_right)
  next
    case False
    with Cons show ?thesis
      by (auto simp add: sublist_Cons_right Let_def not_less)
  qed
qed

lemma Contains_iff_sublist: "Contains s substr \<longleftrightarrow> sublist substr s"
  by (simp add: Contains_def Index_nonneg_iff)

lemma Contains_iff_append: "Contains s substr \<longleftrightarrow> (\<exists>before after. s = before @ substr @ after)"
  by (simp add: Contains_iff_sublist sublist_def)

section \<open>The small text library satisfies the laws of normalization\<close>

subsection \<open>Decoding what was encoded\<close>





subsection \<open>Laws of the glyph operations\<close>







































subsection \<open>Laws of the small text library\<close>
















section \<open>Winning guesses and normalization\<close>


text \<open>
  Claim C5. \<^verbatim>\<open>isWinning\<close> returns \<^verbatim>\<open>(b, e)\<close> exactly when \<^verbatim>\<open>e\<close> is nil, both \<^verbatim>\<open>normalize\<close>
  calls return, and \<^verbatim>\<open>b\<close> tells whether the normalized guess contains the normalized
  secret word as a substring. In particular, in every text library that lowercases
  "CAFE" to "cafe", leaves "caf\'e" as it is, decomposes U+00E9 into e and U+0301,
  removes U+0301 as a nonspacing mark and leaves "cafe" alone in each step,
  \<^verbatim>\<open>normalize\<close> gives the same result for "caf\'e" and "CAFE".
\<close>

theorem isWinning_contains_normalized:
  "(isWinning L fw guess = Return (b, e) \<longleftrightarrow>
      e = None \<and>
      (\<exists>lowGuess lowGoal.
         normalize_str L guess = Return lowGuess \<and> normalize_str L (Word fw) = Return lowGoal \<and>
         (b \<longleftrightarrow> (\<exists>before after. lowGuess = before @ lowGoal @ after)))) \<and>
   (ToLower L ''CAFE'' = ''cafe'' \<and> ToLower L cafe_acute = cafe_acute \<and>
    NFD L cafe_acute = Inr cafe_combining \<and> NFD L ''cafe'' = Inr ''cafe'' \<and>
    RemoveMn L cafe_combining = Inr ''cafe'' \<and> RemoveMn L ''cafe'' = Inr ''cafe'' \<and>
    NFC L ''cafe'' = Inr ''cafe'' \<longrightarrow>
    normalize_str L cafe_acute = normalize_str L ''CAFE'')"
proof (intro conjI impI)
  show "isWinning L fw guess = Return (b, e) \<longleftrightarrow>
      e = None \<and>
      (\<exists>lowGuess lowGoal.
         normalize_str L guess = Return lowGuess \<and> normalize_str L (Word fw) = Return lowGoal \<and>
         (b \<longleftrightarrow> (\<exists>before after. lowGuess = before @ lowGoal @ after)))"
    by (auto simp: isWinning_def andThen_Return_iff Contains_iff_append)
next
  assume "ToLower L ''CAFE'' = ''cafe'' \<and> ToLower L cafe_acute = cafe_acute \<and>
    NFD L cafe_acute = Inr cafe_combining \<and> NFD L ''cafe'' = Inr ''cafe'' \<and>
    RemoveMn L cafe_combining = Inr ''cafe'' \<and> RemoveMn L ''cafe'' = Inr ''cafe'' \<and>
    NFC L ''cafe'' = Inr ''cafe''"
  then show "normalize_str L cafe_acute = normalize_str L ''CAFE''"
    by (simp add: normalize_str_def)
qed

theorem isWinning_contains_normalized_witness:
  "isWinning sampleLib cafe_word (''Un '' @ cafe_acute @ ''?'') = Return (True, None) \<and>
   normalize_str sampleLib (''Un '' @ cafe_acute @ ''?'') = Return (''un '' @ ''cafe'' @ ''?'') \<and>
   normalize_str sampleLib (Word cafe_word) = Return ''cafe'' \<and>
   normalize_str sampleLib cafe_acute = normalize_str sampleLib ''CAFE''"
proof -
  have facts: "ToLower sampleLib ''CAFE'' = ''cafe'' \<and> ToLower sampleLib cafe_acute = cafe_acute \<and>
    NFD sampleLib cafe_acute = Inr cafe_combining \<and> NFD sampleLib ''cafe'' = Inr ''cafe'' \<and>
    RemoveMn sampleLib cafe_combining = Inr ''cafe'' \<and> RemoveMn sampleLib ''cafe'' = Inr ''cafe'' \<and>
    NFC sampleLib ''cafe'' = Inr ''cafe''"
    by code_simp
  have g: "normalize_str sampleLib (''Un '' @ cafe_acute @ ''?'') = Return (''un '' @ ''cafe'' @ ''?'')"
    by code_simp
  have w: "normalize_str sampleLib (Word cafe_word) = Return ''cafe''"
    by code_simp
  show ?thesis
    using isWinning_contains_normalized [of sampleLib cafe_word "''Un '' @ cafe_acute @ ''?''" True None]
      facts g w
    by blast
qed



section \<open>The judge pipeline\<close>

lemma confirmed_error:
  "confirmed sch result issued isSameRoot err1 isTranslated err2 =
     Return ((lost, forbiddenSaid, forbiddenMatched, Some err), evs) \<Longrightarrow>
   \<not> lost \<and> forbiddenSaid = [] \<and> forbiddenMatched = []"
  by (cases "Wait sch (errorsOf err1 err2) None None")
     (simp_all add: confirmed_def split: if_splits)

lemma doubleCheck_error:
  assumes "doubleCheck L E fw issued result =
     Return ((lost, forbiddenSaid, forbiddenMatched, Some err), evs)"
  shows "\<not> lost \<and> forbiddenSaid = [] \<and> forbiddenMatched = []"
proof -
  from assms obtain r1 where
    "andThen (isTranslation L E (Fragment result) (ForbiddenWord result) (languageName fw))
       (\<lambda>(isTranslated, err2).
          confirmed (checksSchedule E) result
            (issued @
             [Issued (SameRootQuestion (Fragment result) (ForbiddenWord result)),
              Issued (TranslationQuestion (Fragment result) (languageName fw)
                (ForbiddenWord result))])
            (fst r1) (snd r1) isTranslated err2) =
     Return ((lost, forbiddenSaid, forbiddenMatched, Some err), evs)"
    unfolding doubleCheck_def by (auto dest!: andThen_Return_D)
  then obtain r2 where
    "confirmed (checksSchedule E) result
       (issued @
        [Issued (SameRootQuestion (Fragment result) (ForbiddenWord result)),
         Issued (TranslationQuestion (Fragment result) (languageName fw)
           (ForbiddenWord result))])
       (fst r1) (snd r1) (fst r2) (snd r2) =
     Return ((lost, forbiddenSaid, forbiddenMatched, Some err), evs)"
    by (auto dest!: andThen_Return_D)
  then show ?thesis by (rule confirmed_error)
qed

lemma confirmed_answers:
  "confirmed sch result issued isSameRoot None isTranslated None =
     Return
       ((if isSameRoot \<or> isTranslated then Lost result else False,
         if isSameRoot \<or> isTranslated then Fragment result else [],
         if isSameRoot \<or> isTranslated then ForbiddenWord result else [],
         None),
        issued @
        (if \<not> isSameRoot \<and> \<not> isTranslated
         then [Printed (LookedSuspiciouslySimilar (Fragment result) (ForbiddenWord result))]
         else (if isSameRoot
               then [Printed (HaveTheSameRoot (Fragment result) (ForbiddenWord result))]
               else []) @
              (if isTranslated
               then [Printed (IsATranslation (Fragment result) (ForbiddenWord result))]
               else [])))"
  by (simp add: confirmed_def Wait_no_error)

text \<open>
  Claim C1, as amended. When the structured judgment says \<^verbatim>\<open>lost=false\<close>,
  \<^verbatim>\<open>saidForbidden\<close> returns no violation at once, and the structured judgment is the only
  request it has issued. When it says \<^verbatim>\<open>lost=true\<close> and both confirmation checks return
  without error, the final verdict is \<^verbatim>\<open>lost=true\<close> exactly when the same-root check or the
  translation check answers yes (with the fragment and the forbidden word of the
  judgment), and no violation otherwise.
\<close>

theorem saidForbidden_verdict:
  assumes "generateContent E (StructuredJudgment (Word fw) (Forbidden fw) said) = Inr resp"
    and "firstPartText resp = Return structureAnswer"
    and "unmarshal E structureAnswer = Inr result"
  shows "(\<not> Lost result \<longrightarrow>
            saidForbidden L E fw said =
              Return ((False, [], [], None),
                [Issued (StructuredJudgment (Word fw) (Forbidden fw) said)])) \<and>
         (Lost result \<longrightarrow>
            (\<forall>isSameRoot isTranslated.
               haveSameRoot L E (Fragment result) (ForbiddenWord result) =
                 Return (isSameRoot, None) \<and>
               isTranslation L E (Fragment result) (ForbiddenWord result) (languageName fw) =
                 Return (isTranslated, None) \<longrightarrow>
               (\<exists>evs. saidForbidden L E fw said =
                  Return
                    ((isSameRoot \<or> isTranslated,
                      if isSameRoot \<or> isTranslated then Fragment result else [],
                      if isSameRoot \<or> isTranslated then ForbiddenWord result else [],
                      None),
                     evs))))"
proof (intro conjI impI allI)
  assume "\<not> Lost result"
  with assms show "saidForbidden L E fw said =
      Return ((False, [], [], None), [Issued (StructuredJudgment (Word fw) (Forbidden fw) said)])"
    by (simp add: saidForbidden_def)
next
  fix isSameRoot isTranslated
  assume lost: "Lost result"
    and answers: "haveSameRoot L E (Fragment result) (ForbiddenWord result) =
        Return (isSameRoot, None) \<and>
      isTranslation L E (Fragment result) (ForbiddenWord result) (languageName fw) =
        Return (isTranslated, None)"
  from assms lost have "saidForbidden L E fw said =
      doubleCheck L E fw [Issued (StructuredJudgment (Word fw) (Forbidden fw) said)] result"
    by (simp add: saidForbidden_def)
  also from answers have "\<dots> =
      confirmed (checksSchedule E) result
        ([Issued (StructuredJudgment (Word fw) (Forbidden fw) said)] @
         [Issued (SameRootQuestion (Fragment result) (ForbiddenWord result)),
          Issued (TranslationQuestion (Fragment result) (languageName fw)
            (ForbiddenWord result))])
        isSameRoot None isTranslated None"
    by (simp add: doubleCheck_def)
  finally show "\<exists>evs. saidForbidden L E fw said =
      Return
        ((isSameRoot \<or> isTranslated,
          if isSameRoot \<or> isTranslated then Fragment result else [],
          if isSameRoot \<or> isTranslated then ForbiddenWord result else [],
          None),
         evs)"
    using lost by (simp add: confirmed_answers)
qed

theorem saidForbidden_verdict_witness:
  "saidForbidden sampleLib (bothAnswer notLostAnswer ''Yes'' ''Yes'' ''Pousser'') pousser
     ''Les fleurs poussent'' =
     Return ((False, [], [], None),
       [Issued (StructuredJudgment ''Pousser'' [''Appuyer'', ''Bousculer''] ''Les fleurs poussent'')]) \<and>
   (\<exists>evs. saidForbidden sampleLib (bothAnswer lostAnswer ''No'' ''YES'' ''Pousser'') pousser
      ''Les fleurs poussent'' =
      Return ((True, ''poussent'', ''Pousser'', None), evs)) \<and>
   (\<exists>evs. saidForbidden sampleLib (bothAnswer lostAnswer ''No'' ''No.'' ''Pousser'') pousser
      ''Les fleurs poussent'' =
      Return ((False, [], [], None), evs))"
proof -
  let ?said = "''Les fleurs poussent''"
  let ?lost = "\<lparr>Lost = True, ForbiddenWord = ''Pousser'', Fragment = ''poussent''\<rparr>"
  let ?E0 = "bothAnswer notLostAnswer ''Yes'' ''Yes'' ''Pousser''"
  let ?E1 = "bothAnswer lostAnswer ''No'' ''YES'' ''Pousser''"
  let ?E2 = "bothAnswer lostAnswer ''No'' ''No.'' ''Pousser''"
  have a0: "generateContent ?E0 (StructuredJudgment (Word pousser) (Forbidden pousser) ?said) =
      Inr (textResponse notLostAnswer)"
    and b0: "firstPartText (textResponse notLostAnswer) = Return notLostAnswer"
    and c0: "unmarshal ?E0 notLostAnswer = Inr \<lparr>Lost = False, ForbiddenWord = [], Fragment = []\<rparr>"
    by code_simp+
  have a1: "generateContent ?E1 (StructuredJudgment (Word pousser) (Forbidden pousser) ?said) =
      Inr (textResponse lostAnswer)"
    and b1: "firstPartText (textResponse lostAnswer) = Return lostAnswer"
    and c1: "unmarshal ?E1 lostAnswer = Inr ?lost"
    and d1: "haveSameRoot sampleLib ?E1 (Fragment ?lost) (ForbiddenWord ?lost) = Return (False, None)"
    and e1: "isTranslation sampleLib ?E1 (Fragment ?lost) (ForbiddenWord ?lost) (languageName pousser) =
      Return (True, None)"
    by code_simp+
  have a2: "generateContent ?E2 (StructuredJudgment (Word pousser) (Forbidden pousser) ?said) =
      Inr (textResponse lostAnswer)"
    and c2: "unmarshal ?E2 lostAnswer = Inr ?lost"
    and d2: "haveSameRoot sampleLib ?E2 (Fragment ?lost) (ForbiddenWord ?lost) = Return (False, None)"
    and e2: "isTranslation sampleLib ?E2 (Fragment ?lost) (ForbiddenWord ?lost) (languageName pousser) =
      Return (False, None)"
    by code_simp+
  have w0: "saidForbidden sampleLib ?E0 pousser ?said =
      Return ((False, [], [], None),
        [Issued (StructuredJudgment (Word pousser) (Forbidden pousser) ?said)])"
    using saidForbidden_verdict [OF a0 b0 c0, of sampleLib] by simp
  have w1: "\<exists>evs. saidForbidden sampleLib ?E1 pousser ?said =
      Return ((True, ''poussent'', ''Pousser'', None), evs)"
    using saidForbidden_verdict [OF a1 b1 c1, of sampleLib] d1 e1 by fastforce
  have w2: "\<exists>evs. saidForbidden sampleLib ?E2 pousser ?said =
      Return ((False, [], [], None), evs)"
    using saidForbidden_verdict [OF a2 b1 c2, of sampleLib] d2 e2 by fastforce
  from w0 w1 w2 show ?thesis
    by (simp add: pousser_def)
qed

text \<open>
  Claim C1 as stated fails when a confirmation check fails: here the judgment says
  \<^verbatim>\<open>lost=true\<close>, the same-root check answers yes, the translation request returns an
  error, and the verdict is \<^verbatim>\<open>lost=false\<close> with that error.
\<close>

theorem saidForbidden_confirmation_counterexample:
  "generateContent translationFails
     (StructuredJudgment (Word pousser) (Forbidden pousser) ''Les fleurs poussent'') =
     Inr (textResponse lostAnswer) \<and>
   unmarshal translationFails lostAnswer =
     Inr \<lparr>Lost = True, ForbiddenWord = ''Pousser'', Fragment = ''poussent''\<rparr> \<and>
   haveSameRoot sampleLib translationFails ''poussent'' ''Pousser'' = Return (True, None) \<and>
   saidForbidden sampleLib translationFails pousser ''Les fleurs poussent'' =
     Return ((False, [], [], Some (Error ''deadline exceeded'')),
       [Issued (StructuredJudgment ''Pousser'' [''Appuyer'', ''Bousculer''] ''Les fleurs poussent''),
        Issued (SameRootQuestion ''poussent'' ''Pousser''),
        Issued (TranslationQuestion ''poussent'' ''French'' ''Pousser'')])"
  by code_simp


text \<open>
  Claim C10. Whenever \<^verbatim>\<open>saidForbidden\<close> returns a non-nil error, it returns
  \<^verbatim>\<open>lost=false\<close> and empty \<^verbatim>\<open>forbiddenSaid\<close> and \<^verbatim>\<open>forbiddenMatched\<close>.
\<close>

theorem saidForbidden_error_no_violation:
  assumes "saidForbidden L E fw said =
      Return ((lost, forbiddenSaid, forbiddenMatched, Some err), evs)"
  shows "\<not> lost \<and> forbiddenSaid = [] \<and> forbiddenMatched = []"
proof (cases "generateContent E (StructuredJudgment (Word fw) (Forbidden fw) said)")
  case (Inl e)
  with assms show ?thesis
    by (simp add: saidForbidden_def)
next
  case (Inr resp)
  with assms obtain structureAnswer where
    parsed: "(case unmarshal E structureAnswer of
         Inl err \<Rightarrow>
           Return ((False, [], [], Some (Wrapped ''failed to parse AI response'' err)),
             [Issued (StructuredJudgment (Word fw) (Forbidden fw) said)])
       | Inr result \<Rightarrow>
           if \<not> Lost result
           then Return ((False, [], [], None),
             [Issued (StructuredJudgment (Word fw) (Forbidden fw) said)])
           else doubleCheck L E fw [Issued (StructuredJudgment (Word fw) (Forbidden fw) said)]
             result)
      = Return ((lost, forbiddenSaid, forbiddenMatched, Some err), evs)"
    by (auto simp: saidForbidden_def Let_def dest!: andThen_Return_D)
  show ?thesis
  proof (cases "unmarshal E structureAnswer")
    case (Inl e)
    with parsed show ?thesis by simp
  next
    case (Inr result)
    show ?thesis
    proof (cases "Lost result")
      case False
      with parsed Inr show ?thesis by simp
    next
      case True
      with parsed Inr have
        "doubleCheck L E fw [Issued (StructuredJudgment (Word fw) (Forbidden fw) said)] result =
           Return ((lost, forbiddenSaid, forbiddenMatched, Some err), evs)"
        by simp
      then show ?thesis by (rule doubleCheck_error)
    qed
  qed
qed

theorem saidForbidden_error_no_violation_witness:
  "saidForbidden sampleLib translationFails pousser ''Les fleurs poussent'' =
     Return ((False, [], [], Some (Error ''deadline exceeded'')),
       [Issued (StructuredJudgment ''Pousser'' [''Appuyer'', ''Bousculer''] ''Les fleurs poussent''),
        Issued (SameRootQuestion ''poussent'' ''Pousser''),
        Issued (TranslationQuestion ''poussent'' ''French'' ''Pousser'')]) \<and>
   \<not> False \<and> ([] :: string) = [] \<and> ([] :: string) = []"
proof -
  have returned: "saidForbidden sampleLib translationFails pousser ''Les fleurs poussent'' =
     Return ((False, [], [], Some (Error ''deadline exceeded'')),
       [Issued (StructuredJudgment ''Pousser'' [''Appuyer'', ''Bousculer''] ''Les fleurs poussent''),
        Issued (SameRootQuestion ''poussent'' ''Pousser''),
        Issued (TranslationQuestion ''poussent'' ''French'' ''Pousser'')])"
    by code_simp
  from saidForbidden_error_no_violation [OF returned] returned show ?thesis
    by simp
qed


section \<open>A turn of the game\<close>

text \<open>
  Claim C6. The judge pipeline and the guesser's chat message are the two goroutines of
  one group, joined by \<^verbatim>\<open>g.Wait()\<close>. When the judge confirms a loss, the turn ends the
  game in a loss whatever the guesser answered, a winning guess included, and whatever
  the schedule of the two goroutines (\<^verbatim>\<open>normalize\<close>, which chooses between the two
  messages of a loss, is taken to return). The verdict waits for the guesser: when the
  two goroutines run one after the other and the guesser's request fails, the turn is
  fatal although the judge confirmed a loss.
\<close>

theorem lost_takes_priority:
  assumes judge: "saidForbidden L E gameWord (description E) =
      Return ((True, forbiddenSaid, forbiddenMatched, None), printed)"
    and said: "normalize_str L forbiddenSaid = Return said"
    and matched: "normalize_str L forbiddenMatched = Return matched"
  shows "(\<forall>res. sendMessage E (description E) = Inr res \<longrightarrow>
            turn L E gameWord =
              Return (if said = matched then UsedForbiddenWord forbiddenMatched
                      else UsedForbiddenInflection forbiddenSaid forbiddenMatched) \<and>
            play L gameWord (E # envs) (Suc guesses) =
              Return (YouLose (if said = matched then UsedForbiddenWord forbiddenMatched
                               else UsedForbiddenInflection forbiddenSaid forbiddenMatched))) \<and>
         (\<forall>err. sendMessage E (description E) = Inl err \<and>
            turnSchedule E = [Assign First, Ret First, Assign Second, Ret Second] \<longrightarrow>
            turn L E gameWord = Fatal)"
proof (intro conjI allI impI)
  fix res
  assume guess: "sendMessage E (description E) = Inr res"
  show t: "turn L E gameWord =
      Return (if said = matched then UsedForbiddenWord forbiddenMatched
              else UsedForbiddenInflection forbiddenSaid forbiddenMatched)"
    by (simp add: turn_def judge guess said matched Wait_no_error)
  show "play L gameWord (E # envs) (Suc guesses) =
      Return (YouLose (if said = matched then UsedForbiddenWord forbiddenMatched
                       else UsedForbiddenInflection forbiddenSaid forbiddenMatched))"
    by (simp add: t)
next
  fix err
  assume "sendMessage E (description E) = Inl err \<and>
    turnSchedule E = [Assign First, Ret First, Assign Second, Ret Second]"
  then show "turn L E gameWord = Fatal"
    by (simp add: turn_def judge errorsOf_def)
qed

theorem lost_takes_priority_witness:
  "isWinning sampleLib pousser ''Pousser'' = Return (True, None) \<and>
   turn sampleLib winningGuess pousser = Return (UsedForbiddenInflection ''poussent'' ''Pousser'') \<and>
   game sampleLib pousser [winningGuess] =
     Return (YouLose (UsedForbiddenInflection ''poussent'' ''Pousser'')) \<and>
   turn sampleLib guessFails pousser = Fatal"
proof -
  let ?printed = "[Issued (StructuredJudgment ''Pousser'' [''Appuyer'', ''Bousculer''] ''Les fleurs poussent''),
        Issued (SameRootQuestion ''poussent'' ''Pousser''),
        Issued (TranslationQuestion ''poussent'' ''French'' ''Pousser''),
        Printed (HaveTheSameRoot ''poussent'' ''Pousser'')]"
  have judge: "saidForbidden sampleLib winningGuess pousser (description winningGuess) =
      Return ((True, ''poussent'', ''Pousser'', None), ?printed)"
    and judge': "saidForbidden sampleLib guessFails pousser (description guessFails) =
      Return ((True, ''poussent'', ''Pousser'', None), ?printed)"
    and said: "normalize_str sampleLib ''poussent'' = Return ''poussent''"
    and matched: "normalize_str sampleLib ''Pousser'' = Return ''pousser''"
    and guess: "sendMessage winningGuess (description winningGuess) = Inr (textResponse ''Pousser'')"
    and fails: "sendMessage guessFails (description guessFails) = Inl (Error ''unavailable'') \<and>
      turnSchedule guessFails = [Assign First, Ret First, Assign Second, Ret Second]"
    and wins: "isWinning sampleLib pousser ''Pousser'' = Return (True, None)"
    by code_simp+
  have "turn sampleLib winningGuess pousser =
      Return (UsedForbiddenInflection ''poussent'' ''Pousser'') \<and>
    play sampleLib pousser [winningGuess] (Suc 2) =
      Return (YouLose (UsedForbiddenInflection ''poussent'' ''Pousser''))"
    using lost_takes_priority [OF judge said matched, of "[]" 2] guess by fastforce
  moreover have "turn sampleLib guessFails pousser = Fatal"
    using lost_takes_priority [OF judge' said matched] fails by fastforce
  ultimately show ?thesis
    using wins by (simp add: game_def eval_nat_numeral)
qed

section \<open>The live game\<close>

subsection \<open>Traces\<close>

lemma sends_append: "sends (xs @ ys) = sends xs @ sends ys"
  by (induction xs rule: sends.induct) simp_all

lemma toGuesser_append: "toGuesser (xs @ ys) = toGuesser xs @ toGuesser ys"
  by (induction xs rule: toGuesser.induct) simp_all

lemma toJudge_append: "toJudge (xs @ ys) = toJudge xs @ toJudge ys"
  by (induction xs rule: toJudge.induct) simp_all

lemma toClient_append: "toClient (xs @ ys) = toClient xs @ toClient ys"
  by (induction xs rule: toClient.induct) simp_all

lemma sends_fanOut: "sends (fanOut frames) = fanOut frames"
  by (induction frames) (simp_all add: fanOut_def)

lemma toGuesser_fanOut: "toGuesser (fanOut frames) = frames"
  by (induction frames) (simp_all add: fanOut_def)

lemma toJudge_fanOut: "toJudge (fanOut frames) = frames"
  by (induction frames) (simp_all add: fanOut_def)

lemma toClient_fanOut: "toClient (fanOut frames) = []"
  by (induction frames) (simp_all add: fanOut_def)

lemma fanOut_Cons: "fanOut (f # frames) = SendGuesser f # SendJudge f # fanOut frames"
  by (simp add: fanOut_def)

lemma humanSpeechLoop_Inr:
  "um message = Inr f \<Longrightarrow>
   humanSpeechLoop um (Inr message # reads) =
     (SendGuesser f # SendJudge f # fst (humanSpeechLoop um reads),
      snd (humanSpeechLoop um reads))"
  by (simp add: case_prod_beta)

text \<open>The loop over messages that all deserialize.\<close>

lemma humanSpeechLoop_good:
  "map um good = map Inr frames \<Longrightarrow>
   humanSpeechLoop um (map Inr good @ reads) =
     (fanOut frames @ fst (humanSpeechLoop um reads), snd (humanSpeechLoop um reads))"
proof (induction good arbitrary: frames)
  case Nil
  then show ?case by (simp add: fanOut_def)
next
  case (Cons m good)
  then obtain f frames' where frames: "frames = f # frames'" "um m = Inr f"
    "map um good = map Inr frames'"
    by (cases frames) auto
  with Cons.IH [of frames'] show ?case
    by (simp add: fanOut_Cons humanSpeechLoop_Inr del: humanSpeechLoop.simps)
qed

text \<open>What the loop forwards, whatever it reads.\<close>

lemma humanSpeechLoop_sends:
  "sends (fst (humanSpeechLoop um reads)) = fanOut (accepted um reads)"
proof (induction um reads rule: humanSpeechLoop.induct)
  case (1 um)
  show ?case by (simp add: accepted_def fanOut_def List.map_filter_simps)
next
  case (2 um err reads)
  show ?case by (simp add: accepted_def fanOut_def deserialized_def List.map_filter_simps)
next
  case (3 um message reads)
  show ?case
  proof (cases "um message")
    case (Inl err)
    then show ?thesis
      by (simp add: accepted_def fanOut_def deserialized_def List.map_filter_simps)
  next
    case (Inr f)
    with 3 [OF Inr] show ?thesis
      by (simp add: accepted_def fanOut_def deserialized_def List.map_filter_simps
          humanSpeechLoop_Inr del: humanSpeechLoop.simps)
  qed
qed

lemma humanSpeechLoop_only_sends_and_logs:
  "toClient (fst (humanSpeechLoop um reads)) = []"
proof (induction um reads rule: humanSpeechLoop.induct)
  case (3 um message reads)
  show ?case
  proof (cases "um message")
    case (Inl err)
    then show ?thesis by simp
  next
    case (Inr f)
    with 3 [OF Inr] show ?thesis
      by (simp add: humanSpeechLoop_Inr del: humanSpeechLoop.simps)
  qed
qed simp_all

lemma liveGame_established:
  "established E \<Longrightarrow>
   liveGame E =
     (case snd (humanSpeechLoop (unmarshalInput E) (clientReads E)) of
        Return u \<Rightarrow>
          (handshake E @ fst (humanSpeechLoop (unmarshalInput E) (clientReads E)) @
             [GoJudgeLoop, CloseJudge, CloseGuesser, CloseClient], Return ())
      | out \<Rightarrow>
          (handshake E @ fst (humanSpeechLoop (unmarshalInput E) (clientReads E)), out))"
  by (auto simp: established_def liveGame_def handshake_def Let_def
      split: prod.splits outcome.splits)


lemma toGuesser_sends: "toGuesser (sends xs) = toGuesser xs"
  by (induction xs rule: sends.induct) simp_all

lemma toJudge_sends: "toJudge (sends xs) = toJudge xs"
  by (induction xs rule: sends.induct) simp_all

lemma sends_handshake: "sends (handshake E) = []"
  by (simp add: handshake_def split: option.splits)

lemma toClient_handshake: "toClient (handshake E) = []"
  by (simp add: handshake_def split: option.splits)

lemma accepted_good: "map um good = map Inr frames \<Longrightarrow> accepted um (map Inr good) = frames"
proof (induction good arbitrary: frames)
  case Nil
  then show ?case by (simp add: accepted_def List.map_filter_simps)
next
  case (Cons m good)
  then obtain f frames' where "frames = f # frames'" "um m = Inr f"
    "map um good = map Inr frames'"
    by (cases frames) auto
  with Cons.IH [of frames'] show ?case
    by (simp add: accepted_def deserialized_def List.map_filter_simps)
qed

lemma liveGame_sends:
  assumes "established E"
  shows "sends (fst (liveGame E)) = fanOut (accepted (unmarshalInput E) (clientReads E))"
proof (cases "snd (humanSpeechLoop (unmarshalInput E) (clientReads E))")
  case (Return u)
  then show ?thesis
    by (simp add: liveGame_established [OF assms] sends_append sends_handshake
        humanSpeechLoop_sends)
qed (simp_all add: liveGame_established [OF assms] sends_append sends_handshake
    humanSpeechLoop_sends)

lemma guessingLoop_relayed:
  "map marshal ms = map Inr bs \<Longrightarrow>
   (guessingLoop marshal (map (\<lambda>m. (Inr m, None)) ms @ receives) ::
      'f action list \<times> unit outcome) =
     (map WriteClient bs @ fst (guessingLoop marshal receives :: 'f action list \<times> unit outcome),
      snd (guessingLoop marshal receives :: 'f action list \<times> unit outcome))"
proof (induction ms arbitrary: bs)
  case Nil
  then show ?case by simp
next
  case (Cons m ms)
  then obtain b bs' where "bs = b # bs'" "marshal m = Inr b" "map marshal ms = map Inr bs'"
    by (cases bs) auto
  with Cons.IH [of bs'] show ?case
    by (simp add: case_prod_beta)
qed

lemma judgeLoop_ends:
  "snd (judgeLoop gid (map Inr ms @ Inl err # receives)) = Return ()"
  by (induction ms) (simp_all add: case_prod_beta Let_def)

lemma judgeLoop_logs:
  "list_all isLog (fst (judgeLoop gid receives :: 'f action list \<times> unit outcome)) \<and>
   toClient (fst (judgeLoop gid receives :: 'f action list \<times> unit outcome)) = []"
proof (induction receives)
  case Nil
  show ?case by simp
next
  case (Cons r receives)
  then show ?case
    by (cases r) (simp_all add: case_prod_beta Let_def toClient_append split: option.splits)
qed

lemma liveGame_writes_nothing: "toClient (fst (liveGame E)) = []"
proof (cases "promptFor (lang E)")
  case None
  then show ?thesis by (simp add: liveGame_def)
next
  case (Some prompt)
  show ?thesis
  proof (cases "upgrade E = None \<and> connectGuesser E = None \<and> connectJudge E = None")
    case True
    with Some have "established E" by (simp add: established_def)
    then show ?thesis
      by (cases "snd (humanSpeechLoop (unmarshalInput E) (clientReads E))")
         (simp_all add: liveGame_established toClient_append toClient_handshake
           humanSpeechLoop_only_sends_and_logs)
  next
    case False
    with Some show ?thesis
      by (auto simp: liveGame_def Let_def split: option.splits)
  qed
qed

lemma guessingLoop_writes:
  "\<exists>ms. prefix (map Inr ms) (map fst receives) \<and>
     map marshal ms =
       map Inr (toClient (fst (guessingLoop marshal receives :: 'f action list \<times> unit outcome)))"
proof (induction marshal receives rule: guessingLoop.induct)
  case (1 marshal)
  show ?case by simp
next
  case (2 marshal err written receives)
  show ?case by simp
next
  case (3 marshal message written receives)
  show ?case
  proof (cases "marshal message")
    case (Inl err)
    then show ?thesis by simp
  next
    case (Inr messageBytes)
    show ?thesis
    proof (cases written)
      case (Some err)
      with Inr have "prefix (map Inr [message]) (map fst ((Inr message, written) # receives)) \<and>
        map marshal [message] =
          map Inr (toClient (fst (guessingLoop marshal ((Inr message, written) # receives) ::
            'f action list \<times> unit outcome)))"
        by simp
      then show ?thesis by blast
    next
      case None
      from 3 [OF Inr None] obtain ms where
        ms: "prefix (map Inr ms) (map fst receives)"
          "map marshal ms =
            map Inr (toClient (fst (guessingLoop marshal receives ::
              'f action list \<times> unit outcome)))"
        by blast
      with Inr None have
        "prefix (map Inr (message # ms)) (map fst ((Inr message, written) # receives)) \<and>
         map marshal (message # ms) =
          map Inr (toClient (fst (guessingLoop marshal ((Inr message, written) # receives) ::
            'f action list \<times> unit outcome)))"
        by (simp add: case_prod_beta)
      then show ?thesis by blast
    qed
  qed
qed

subsection \<open>The fan-out\<close>

text \<open>
  Claim C2. On an established connection, the frames sent to the guesser session and
  those sent to the judge session are both the frames read and deserialized before the
  loop ends, in the order of arrival, and the sends alternate: each frame goes to the
  guesser session and then to the judge session. When every message read deserializes,
  these are all the frames the client sent.
\<close>

theorem fan_out_in_order:
  "established E \<Longrightarrow>
   sends (fst (liveGame E)) = fanOut (accepted (unmarshalInput E) (clientReads E)) \<and>
   toGuesser (fst (liveGame E)) = accepted (unmarshalInput E) (clientReads E) \<and>
   toJudge (fst (liveGame E)) = accepted (unmarshalInput E) (clientReads E) \<and>
   (clientReads E = map Inr messages \<and> map (unmarshalInput E) messages = map Inr frames \<longrightarrow>
      accepted (unmarshalInput E) (clientReads E) = frames)"
proof (intro conjI impI)
  assume est: "established E"
  show s: "sends (fst (liveGame E)) = fanOut (accepted (unmarshalInput E) (clientReads E))"
    using est by (rule liveGame_sends)
  have "toGuesser (fst (liveGame E)) = toGuesser (sends (fst (liveGame E)))"
    by (simp add: toGuesser_sends)
  then show "toGuesser (fst (liveGame E)) = accepted (unmarshalInput E) (clientReads E)"
    by (simp add: s toGuesser_fanOut)
  have "toJudge (fst (liveGame E)) = toJudge (sends (fst (liveGame E)))"
    by (simp add: toJudge_sends)
  then show "toJudge (fst (liveGame E)) = accepted (unmarshalInput E) (clientReads E)"
    by (simp add: s toJudge_fanOut)
next
  assume "clientReads E = map Inr messages \<and> map (unmarshalInput E) messages = map Inr frames"
  then show "accepted (unmarshalInput E) (clientReads E) = frames"
    by (simp add: accepted_good)
qed

theorem fan_out_in_order_witness:
  "established (frenchGame [Inr ''{audio 1'', Inr ''{audio 2'']) \<and>
   sends (fst (liveGame (frenchGame [Inr ''{audio 1'', Inr ''{audio 2'']))) =
     [SendGuesser ''audio 1'', SendJudge ''audio 1'', SendGuesser ''audio 2'', SendJudge ''audio 2''] \<and>
   toGuesser (fst (liveGame (frenchGame [Inr ''{audio 1'', Inr ''{audio 2'']))) =
     [''audio 1'', ''audio 2''] \<and>
   toJudge (fst (liveGame (frenchGame [Inr ''{audio 1'', Inr ''{audio 2'']))) =
     [''audio 1'', ''audio 2'']"
proof -
  let ?E = "frenchGame [Inr ''{audio 1'', Inr ''{audio 2'']"
  have est: "established ?E"
    by code_simp
  have reads: "clientReads ?E = map Inr [''{audio 1'', ''{audio 2''] \<and>
      map (unmarshalInput ?E) [''{audio 1'', ''{audio 2''] = map Inr [''audio 1'', ''audio 2'']"
    by code_simp
  from fan_out_in_order [OF est, of "[''{audio 1'', ''{audio 2'']" "[''audio 1'', ''audio 2'']"] reads
  have "sends (fst (liveGame ?E)) = fanOut [''audio 1'', ''audio 2''] \<and>
    toGuesser (fst (liveGame ?E)) = [''audio 1'', ''audio 2''] \<and>
    toJudge (fst (liveGame ?E)) = [''audio 1'', ''audio 2'']"
    by simp
  with est show ?thesis
    by (simp add: fanOut_def)
qed


subsection \<open>Malformed frames\<close>

text \<open>
  Claim C3, as amended. When a malformed frame arrives on an established connection,
  after frames that deserialize, the handler forwards those frames, logs the error with
  \<^verbatim>\<open>log.Fatal\<close> and ends the server process: nothing is written to the client, the judge
  loop is not started and no deferred \<^verbatim>\<open>Close\<close> runs.
\<close>

theorem malformed_frame_is_fatal:
  assumes "established E"
    and "clientReads E = map Inr good @ Inr bad # rest"
    and "map (unmarshalInput E) good = map Inr frames"
    and "unmarshalInput E bad = Inl err"
  shows "liveGame E =
      (handshake E @ fanOut frames @ [LogFatal ''unmarshal message error '' err], Fatal) \<and>
    toClient (fst (liveGame E)) = []"
proof -
  have "humanSpeechLoop (unmarshalInput E) (clientReads E) =
      (fanOut frames @ [LogFatal ''unmarshal message error '' err], Fatal)"
    using assms(2-4) by (simp add: humanSpeechLoop_good)
  then have "liveGame E =
      (handshake E @ fanOut frames @ [LogFatal ''unmarshal message error '' err], Fatal)"
    by (simp add: liveGame_established [OF assms(1)])
  then show ?thesis
    by (simp add: toClient_append toClient_handshake toClient_fanOut)
qed

theorem malformed_frame_is_fatal_witness:
  "liveGame (frenchGame [Inr ''{audio 1'', Inr ''audio 2'', Inr ''{audio 3'']) =
     ([Upgraded, Log ''Starting game '' None,
       Connected ''gemini-2.5-flash-native-audio-preview-09-2025'' (Guess guesserPrompt_fr),
       Connected ''gemini-2.5-flash-native-audio-preview-09-2025''
         (JudgeProscribed [''Pousser'', ''Appuyer'']),
       GoGuessingLoop, SendGuesser ''audio 1'', SendJudge ''audio 1'',
       LogFatal ''unmarshal message error '' (Error ''invalid character'')],
      Fatal)"
proof -
  let ?E = "frenchGame [Inr ''{audio 1'', Inr ''audio 2'', Inr ''{audio 3'']"
  have est: "established ?E"
    and reads: "clientReads ?E = map Inr [''{audio 1''] @ Inr ''audio 2'' # [Inr ''{audio 3'']"
    and good: "map (unmarshalInput ?E) [''{audio 1''] = map Inr [''audio 1'']"
    and bad: "unmarshalInput ?E ''audio 2'' = Inl (Error ''invalid character'')"
    and hs: "handshake ?E =
      [Upgraded, Log ''Starting game '' None,
       Connected ''gemini-2.5-flash-native-audio-preview-09-2025'' (Guess guesserPrompt_fr),
       Connected ''gemini-2.5-flash-native-audio-preview-09-2025''
         (JudgeProscribed [''Pousser'', ''Appuyer'']),
       GoGuessingLoop]"
    by code_simp+
  from malformed_frame_is_fatal [OF est reads good bad] hs show ?thesis
    by (simp add: fanOut_def)
qed

text \<open>
  Claim C3 as stated fails: a first message that is not JSON ends the process, not only
  the game, and no error reaches the client.
\<close>

theorem malformed_frame_counterexample:
  "liveGame (frenchGame [Inr ''not JSON'', Inr ''{audio 1'']) =
     ([Upgraded, Log ''Starting game '' None,
       Connected ''gemini-2.5-flash-native-audio-preview-09-2025'' (Guess guesserPrompt_fr),
       Connected ''gemini-2.5-flash-native-audio-preview-09-2025''
         (JudgeProscribed [''Pousser'', ''Appuyer'']),
       GoGuessingLoop,
       LogFatal ''unmarshal message error '' (Error ''invalid character'')],
      Fatal)"
  by code_simp

subsection \<open>Transport errors\<close>

text \<open>
  Claim C4, as amended. A failed read from the client ends the human speech loop, and
  the handler returns after closing both sessions and the connection; a failed receive
  from the guesser session and a failed write to the client each end the guessing loop; a
  failed receive from the judge session ends the judge loop; none of them ends the
  process. A failed \<^verbatim>\<open>Live.Connect\<close>, of either session, ends the server process through
  \<^verbatim>\<open>log.Fatal\<close>.
\<close>

theorem transport_errors:
  "(established E \<and> clientReads E = map Inr good @ Inl err # rest \<and>
      map (unmarshalInput E) good = map Inr frames \<longrightarrow>
      liveGame E =
        (handshake E @ fanOut frames @
         [Log ''read from client error: '' (Some err), GoJudgeLoop, CloseJudge, CloseGuesser,
          CloseClient],
         Return ())) \<and>
   (map marshal ms = map Inr bs \<longrightarrow>
      guessingLoop marshal (map (\<lambda>m. (Inr m, None)) ms @ (Inl err, written) # receives) =
        (map WriteClient bs @ [Log ''guesser model deconnected: '' (Some err)], Return ())) \<and>
   (map marshal ms = map Inr bs \<and> marshal m = Inr b \<longrightarrow>
      guessingLoop marshal (map (\<lambda>m. (Inr m, None)) ms @ (Inr m, Some err) # receives) =
        (map WriteClient bs @ [WriteClient b, Log ''write message error: '' (Some err)],
         Return ())) \<and>
   snd (judgeLoop gid (map Inr judged @ Inl err # later)) = Return () \<and>
   (promptFor (lang E') \<noteq> None \<and> upgrade E' = None \<and>
      (connectGuesser E' \<noteq> None \<or> connectJudge E' \<noteq> None) \<longrightarrow>
      snd (liveGame E') = Fatal)"
proof (intro conjI impI)
  assume a: "established E \<and> clientReads E = map Inr good @ Inl err # rest \<and>
      map (unmarshalInput E) good = map Inr frames"
  then have "humanSpeechLoop (unmarshalInput E) (clientReads E) =
      (fanOut frames @ [Log ''read from client error: '' (Some err)], Return ())"
    by (simp add: humanSpeechLoop_good)
  with a show "liveGame E =
        (handshake E @ fanOut frames @
         [Log ''read from client error: '' (Some err), GoJudgeLoop, CloseJudge, CloseGuesser,
          CloseClient],
         Return ())"
    by (simp add: liveGame_established)
next
  assume "map marshal ms = map Inr bs"
  then show "guessingLoop marshal (map (\<lambda>m. (Inr m, None)) ms @ (Inl err, written) # receives) =
        (map WriteClient bs @ [Log ''guesser model deconnected: '' (Some err)], Return ())"
    by (simp add: guessingLoop_relayed)
next
  assume "map marshal ms = map Inr bs \<and> marshal m = Inr b"
  then show "guessingLoop marshal (map (\<lambda>m. (Inr m, None)) ms @ (Inr m, Some err) # receives) =
        (map WriteClient bs @ [WriteClient b, Log ''write message error: '' (Some err)],
         Return ())"
    by (simp add: guessingLoop_relayed)
next
  show "snd (judgeLoop gid (map Inr judged @ Inl err # later)) = Return ()"
    by (rule judgeLoop_ends)
next
  assume "promptFor (lang E') \<noteq> None \<and> upgrade E' = None \<and>
      (connectGuesser E' \<noteq> None \<or> connectJudge E' \<noteq> None)"
  then show "snd (liveGame E') = Fatal"
    by (auto simp: liveGame_def Let_def split: option.splits)
qed


theorem transport_errors_witness:
  "liveGame clientLeaves =
     ([Upgraded, Log ''Starting game '' None,
       Connected ''gemini-2.5-flash-native-audio-preview-09-2025'' (Guess guesserPrompt_fr),
       Connected ''gemini-2.5-flash-native-audio-preview-09-2025''
         (JudgeProscribed [''Pousser'', ''Appuyer'']),
       GoGuessingLoop, SendGuesser ''audio 1'', SendJudge ''audio 1'',
       SendGuesser ''audio 2'', SendJudge ''audio 2'',
       Log ''read from client error: '' (Some (Error ''going away'')),
       GoJudgeLoop, CloseJudge, CloseGuesser, CloseClient],
      Return ()) \<and>
   (guessingLoop sampleMarshal
      [(Inr (says ''chat''), None), (Inl (Error ''EOF''), None), (Inr (says ''chien''), None)] ::
      string action list \<times> unit outcome) =
     ([WriteClient ''chat'', Log ''guesser model deconnected: '' (Some (Error ''EOF''))], Return ()) \<and>
   (guessingLoop sampleMarshal
      [(Inr (says ''chat''), None), (Inr (says ''chien''), Some (Error ''broken pipe''))] ::
      string action list \<times> unit outcome) =
     ([WriteClient ''chat'', WriteClient ''chien'',
       Log ''write message error: '' (Some (Error ''broken pipe''))], Return ()) \<and>
   snd (judgeLoop ''aB3x'' [Inr (says ''poussent''), Inl (Error ''EOF'')] ::
      string action list \<times> unit outcome) = Return () \<and>
   snd (liveGame judgeRefuses) = Fatal"
proof -
  have est: "established clientLeaves \<and>
      clientReads clientLeaves =
        map Inr [''{audio 1'', ''{audio 2''] @ Inl (Error ''going away'') # [] \<and>
      map (unmarshalInput clientLeaves) [''{audio 1'', ''{audio 2''] =
        map Inr [''audio 1'', ''audio 2'']"
    and hs: "handshake clientLeaves =
      [Upgraded, Log ''Starting game '' None,
       Connected ''gemini-2.5-flash-native-audio-preview-09-2025'' (Guess guesserPrompt_fr),
       Connected ''gemini-2.5-flash-native-audio-preview-09-2025''
         (JudgeProscribed [''Pousser'', ''Appuyer'']),
       GoGuessingLoop]"
    and ms: "map sampleMarshal [says ''chat''] = map Inr [''chat'']"
    and m: "map sampleMarshal [says ''chat''] = map Inr [''chat''] \<and>
      sampleMarshal (says ''chien'') = Inr ''chien''"
    and refused: "promptFor (lang judgeRefuses) \<noteq> None \<and> upgrade judgeRefuses = None \<and>
      (connectGuesser judgeRefuses \<noteq> None \<or> connectJudge judgeRefuses \<noteq> None)"
    by code_simp+
  have left: "liveGame clientLeaves =
      (handshake clientLeaves @ fanOut [''audio 1'', ''audio 2''] @
       [Log ''read from client error: '' (Some (Error ''going away'')), GoJudgeLoop, CloseJudge,
        CloseGuesser, CloseClient],
       Return ())"
    by (rule transport_errors [THEN conjunct1, THEN mp, OF est])
  have received: "(guessingLoop sampleMarshal
      (map (\<lambda>m. (Inr m, None)) [says ''chat''] @
       (Inl (Error ''EOF''), None) # [(Inr (says ''chien''), None)]) ::
      string action list \<times> unit outcome) =
     (map WriteClient [''chat''] @ [Log ''guesser model deconnected: '' (Some (Error ''EOF''))],
      Return ())"
    by (rule transport_errors [THEN conjunct2, THEN conjunct1, THEN mp, OF ms])
  have written: "(guessingLoop sampleMarshal
      (map (\<lambda>m. (Inr m, None)) [says ''chat''] @
       (Inr (says ''chien''), Some (Error ''broken pipe'')) # []) ::
      string action list \<times> unit outcome) =
     (map WriteClient [''chat''] @
      [WriteClient ''chien'', Log ''write message error: '' (Some (Error ''broken pipe''))],
      Return ())"
    by (rule transport_errors [THEN conjunct2, THEN conjunct2, THEN conjunct1, THEN mp, OF m])
  have judge: "snd (judgeLoop ''aB3x'' (map Inr [says ''poussent''] @ Inl (Error ''EOF'') # []) ::
      string action list \<times> unit outcome) = Return ()"
    by (rule transport_errors [THEN conjunct2, THEN conjunct2, THEN conjunct2, THEN conjunct1])
  have fatal: "snd (liveGame judgeRefuses) = Fatal"
    by (rule transport_errors [THEN conjunct2, THEN conjunct2, THEN conjunct2, THEN conjunct2, THEN mp, OF refused])
  from left received written judge fatal hs show ?thesis
    by (simp add: fanOut_def)
qed


text \<open>
  Claim C4 as stated fails: when the judge session cannot be connected, after startup,
  the server process ends.
\<close>

theorem transport_errors_counterexample:
  "liveGame judgeRefuses =
     ([Upgraded, Log ''Starting game '' None,
       Connected ''gemini-2.5-flash-native-audio-preview-09-2025'' (Guess guesserPrompt_fr),
       LogFatal ''connect to model error: '' (Error ''connection refused'')],
      Fatal)"
  by code_simp

subsection \<open>What reaches the client\<close>

text \<open>
  Claim C7. The judge loop writes nothing to the client: all it does is log. The
  handler's own goroutine writes nothing to the client either. What the guessing loop
  writes to the client is, in order, the serialization of the first messages received
  from the guesser session.
\<close>

theorem only_guesser_reaches_client:
  "toClient (fst (judgeLoop gid judged :: 'f action list \<times> unit outcome)) = [] \<and>
   list_all isLog (fst (judgeLoop gid judged :: 'f action list \<times> unit outcome)) \<and>
   toClient (fst (liveGame E)) = [] \<and>
   (\<exists>ms. prefix (map Inr ms) (map fst receives) \<and>
      map marshal ms =
        map Inr (toClient (fst (guessingLoop marshal receives :: 'f action list \<times> unit outcome))))"
  using judgeLoop_logs [of gid judged, where ?'f = 'f] liveGame_writes_nothing [of E]
    guessingLoop_writes [of receives marshal, where ?'f = 'f]
  by simp

theorem only_guesser_reaches_client_witness:
  "fst (judgeLoop ''aB3x'' [Inr (says ''poussent''), Inl (Error ''EOF'')] ::
      string action list \<times> unit outcome) =
     [LogJudgeSays ''aB3x'' ''poussent'', Log ''judge deconnected: '' (Some (Error ''EOF''))] \<and>
   toClient (fst (judgeLoop ''aB3x'' [Inr (says ''poussent''), Inl (Error ''EOF'')] ::
      string action list \<times> unit outcome)) = [] \<and>
   toClient (fst (liveGame clientLeaves)) = [] \<and>
   toClient (fst (guessingLoop sampleMarshal
      [(Inr (says ''chat''), None), (Inr (says ''chien''), None)] ::
      string action list \<times> unit outcome)) = [''chat'', ''chien'']"
proof -
  have logged: "fst (judgeLoop ''aB3x'' [Inr (says ''poussent''), Inl (Error ''EOF'')] ::
      string action list \<times> unit outcome) =
     [LogJudgeSays ''aB3x'' ''poussent'', Log ''judge deconnected: '' (Some (Error ''EOF''))]"
    and relayed: "toClient (fst (guessingLoop sampleMarshal
      [(Inr (says ''chat''), None), (Inr (says ''chien''), None)] ::
      string action list \<times> unit outcome)) = [''chat'', ''chien'']"
    by code_simp+
  from only_guesser_reaches_client
    [of "''aB3x''" "[Inr (says ''poussent''), Inl (Error ''EOF'')]" clientLeaves, where ?'f = string]
  have "toClient (fst (judgeLoop ''aB3x'' [Inr (says ''poussent''), Inl (Error ''EOF'')] ::
      string action list \<times> unit outcome)) = [] \<and>
    toClient (fst (liveGame clientLeaves)) = []"
    by blast
  with logged relayed show ?thesis
    by simp
qed

subsection \<open>The start of the judge loop\<close>

text \<open>
  Claim C8 fails on the code. The judge loop is started by the statement that follows
  the human speech loop: when the client has sent two frames and left, the handler starts
  it after the failed read, and returns at once, closing both sessions; while the client
  stays connected, the judge loop has not been started.
\<close>

theorem judge_loop_starts_when_game_is_over:
  "liveGame clientLeaves =
     ([Upgraded, Log ''Starting game '' None,
       Connected ''gemini-2.5-flash-native-audio-preview-09-2025'' (Guess guesserPrompt_fr),
       Connected ''gemini-2.5-flash-native-audio-preview-09-2025''
         (JudgeProscribed [''Pousser'', ''Appuyer'']),
       GoGuessingLoop, SendGuesser ''audio 1'', SendJudge ''audio 1'',
       SendGuesser ''audio 2'', SendJudge ''audio 2'',
       Log ''read from client error: '' (Some (Error ''going away'')),
       GoJudgeLoop, CloseJudge, CloseGuesser, CloseClient],
      Return ()) \<and>
   liveGame clientStays =
     ([Upgraded, Log ''Starting game '' None,
       Connected ''gemini-2.5-flash-native-audio-preview-09-2025'' (Guess guesserPrompt_fr),
       Connected ''gemini-2.5-flash-native-audio-preview-09-2025''
         (JudgeProscribed [''Pousser'', ''Appuyer'']),
       GoGuessingLoop, SendGuesser ''audio 1'', SendJudge ''audio 1'',
       SendGuesser ''audio 2'', SendJudge ''audio 2''],
      Blocked)"
  by code_simp

end
